theory Spec2Isabelle
  imports Complex_Main "HOL-Library.Sublist" "HOL-Library.AList"
begin

section \<open>Python strings\<close>

text \<open>
  A Python \<open>str\<close> is modelled as a HOL \<open>string\<close>, one \<open>char\<close> per code point; the
  model therefore covers the strings whose code points lie in the Latin-1 range
  \<open>0..255\<close>.  On that range \<open>str.lower\<close> keeps the length of the string: it moves
  \<open>A..Z\<close> and the accented capitals \<open>0xC0..0xDE\<close> (the multiplication sign \<open>0xD7\<close>
  apart) up by 32 and leaves every other code point alone.
\<close>

definition py_lower_char :: "char \<Rightarrow> char" where
  "py_lower_char c =
     (let n = (of_char c :: nat)
      in if (65 \<le> n \<and> n \<le> 90) \<or> (192 \<le> n \<and> n \<le> 222 \<and> n \<noteq> 215)
         then char_of (n + 32) else c)"

definition py_lower :: "string \<Rightarrow> string" where
  "py_lower s = map py_lower_char s"

text \<open>\<open>str.isspace\<close> on one Latin-1 code point.\<close>

definition py_isspace :: "char \<Rightarrow> bool" where
  "py_isspace c =
     (let n = (of_char c :: nat)
      in (9 \<le> n \<and> n \<le> 13) \<or> (28 \<le> n \<and> n \<le> 32) \<or> n = 133 \<or> n = 160)"

text \<open>\<open>s.strip(chars)\<close>, the set of characters given as a predicate.\<close>

definition py_strip_by :: "(char \<Rightarrow> bool) \<Rightarrow> string \<Rightarrow> string" where
  "py_strip_by p s = rev (dropWhile p (rev (dropWhile p s)))"

definition py_strip :: "string \<Rightarrow> string" where
  "py_strip s = py_strip_by py_isspace s"

text \<open>
  \<open>s.find(sub, start)\<close> for \<open>start \<ge> 0\<close>: the lowest index \<open>i \<ge> start\<close> at which
  \<open>sub\<close> occurs in \<open>s\<close>, and \<open>-1\<close> when there is none or \<open>start\<close> lies beyond the end.
\<close>

fun find_prefix :: "string \<Rightarrow> string \<Rightarrow> nat option" where
  "find_prefix sub [] = (if sub = [] then Some 0 else None)"
| "find_prefix sub (c # cs) =
     (if prefix sub (c # cs) then Some 0 else map_option Suc (find_prefix sub cs))"

definition py_find :: "string \<Rightarrow> string \<Rightarrow> nat \<Rightarrow> int" where
  "py_find s sub start =
     (if length s < start then - 1
      else case find_prefix sub (drop start s) of
             None \<Rightarrow> - 1
           | Some i \<Rightarrow> int (start + i))"

text \<open>\<open>sub in s\<close>.\<close>

definition py_in :: "string \<Rightarrow> string \<Rightarrow> bool" where
  "py_in sub s = (find_prefix sub s \<noteq> None)"

text \<open>\<open>s[a:b]\<close>: a negative index counts from the end, and both are clipped to the string.\<close>

definition py_index :: "string \<Rightarrow> int \<Rightarrow> nat" where
  "py_index s i =
     (if i < 0 then nat (int (length s) + i) else min (nat i) (length s))"

definition py_slice :: "string \<Rightarrow> int \<Rightarrow> int \<Rightarrow> string" where
  "py_slice s a b = take (py_index s b - py_index s a) (drop (py_index s a) s)"

text \<open>\<open>s.rfind(c)\<close> for a single character, \<open>os.path.splitext\<close> and \<open>os.path.basename\<close>
  (POSIX flavour: the separator is \<open>/\<close>).\<close>

definition py_rfind_char :: "string \<Rightarrow> char \<Rightarrow> int" where
  "py_rfind_char s c =
     (if c \<in> set s
      then int (length s) - 1 - int (length (takeWhile (\<lambda>x. x \<noteq> c) (rev s)))
      else - 1)"

definition splitext :: "string \<Rightarrow> string \<times> string" where
  "splitext p =
     (let sepIndex = py_rfind_char p CHR ''/'';
          dotIndex = py_rfind_char p CHR ''.''
      in if sepIndex < dotIndex
            \<and> list_ex (\<lambda>c. c \<noteq> CHR ''.'') (py_slice p (sepIndex + 1) dotIndex)
         then (py_slice p 0 dotIndex, drop (nat dotIndex) p)
         else (p, []))"

definition basename :: "string \<Rightarrow> string" where
  "basename p = drop (nat (py_rfind_char p CHR ''/'' + 1)) p"

section \<open>Python values, exceptions and collaborators\<close>

text \<open>
  What \<open>json.loads\<close> can return, which is also what the fallback dictionary holds.
  A \<open>dict\<close> is an association list read with \<open>map_of\<close>; a JSON number is a Python
  \<open>int\<close> or a finite \<open>float\<close>, the latter given by the rational it denotes.
\<close>

datatype pyval =
    PyNone
  | PyBool bool
  | PyInt int
  | PyFloat rat
  | PyStr string
  | PyList "pyval list"
  | PyDict "(string \<times> pyval) list"

text \<open>Truth value of a Python object, as \<open>if v:\<close> and \<open>v and ...\<close> test it.\<close>

fun truthy :: "pyval \<Rightarrow> bool" where
  "truthy PyNone = False"
| "truthy (PyBool b) = b"
| "truthy (PyInt i) = (i \<noteq> 0)"
| "truthy (PyFloat r) = (r \<noteq> 0)"
| "truthy (PyStr s) = (s \<noteq> [])"
| "truthy (PyList xs) = (xs \<noteq> [])"
| "truthy (PyDict d) = (d \<noteq> [])"

text \<open>\<open>d.get(k, default)\<close> on a dictionary.\<close>

definition dict_get :: "(string \<times> pyval) list \<Rightarrow> string \<Rightarrow> pyval \<Rightarrow> pyval" where
  "dict_get d k dflt = (case map_of d k of None \<Rightarrow> dflt | Some v \<Rightarrow> v)"

text \<open>
  The exceptions the code raises itself, and \<open>LibraryError\<close> for whatever a
  collaborator (pandas, seaborn, the language model) raises.
  \<open>NoFilesProcessed\<close> is \<open>ValueError("No files have been processed yet")\<close>,
  \<open>UnsupportedVisualizationType v\<close> is \<open>ValueError(f"Unsupported visualization type: {v}")\<close>,
  \<open>UnsupportedVisualizationEngine e\<close> and \<open>UnsupportedFileExtension e\<close> likewise.
\<close>

datatype error =
    NoFilesProcessed
  | UnsupportedVisualizationType pyval
  | UnsupportedVisualizationEngine string
  | UnsupportedFileExtension string
  | KeyError string
  | AttributeError string
  | TypeError string
  | JSONDecodeError
  | LibraryError string

text \<open>
  The formatted strings of \<open>ask\<close>, kept with the value they interpolate:
  \<open>HereIsViz v\<close> is \<open>f"Here is the {v} visualization you requested"\<close> and
  \<open>FileNotFound v\<close> is \<open>f"File {v} not found or no data available for visualization"\<close>.
\<close>

datatype message = Literal string | HereIsViz pyval | FileNotFound pyval

datatype role = User | Assistant

record turn =
  role :: role
  content :: message

text \<open>The seaborn call that \<open>_seaborn_viz\<close> selects, with the arguments it passes.\<close>

datatype plot_call =
    Barplot pyval pyval "pyval option"
  | Lineplot pyval pyval "pyval option"
  | Scatterplot pyval pyval "pyval option"
  | Histplot pyval
  | Boxplot pyval pyval
  | HeatmapPivot pyval pyval pyval
  | HeatmapCorr
  | Pieplot pyval

text \<open>The calls to collaborators, logged in the order they are made.\<close>

datatype call =
    LlmInvoke
  | Draw plot_call
  | ReadCsv string
  | ReadCsvTab string
  | ReadJson string
  | OpenExcel string
  | ReadExcel string string

record viz_result =
  figure :: string
  format :: string
  title :: pyval
  viz_type :: pyval
  engine :: string

datatype response =
    TextResponse message
  | VisualizationResponse viz_result message

fun response_message :: "response \<Rightarrow> message" where
  "response_message (TextResponse m) = m"
| "response_message (VisualizationResponse d m) = m"

section \<open>The visualization engine\<close>

text \<open>
  \<open>VisualizationEngine._seaborn_viz\<close>.  The collaborator \<open>draw\<close> stands for the
  selected seaborn call followed by \<open>plt.title\<close>, \<open>plt.savefig\<close> and the base64
  encoding: it returns the encoded figure or raises.  An unknown \<open>viz_type\<close> raises
  before anything is drawn.
\<close>

definition seaborn_viz ::
  "('df \<Rightarrow> plot_call \<Rightarrow> pyval \<Rightarrow> error + string) \<Rightarrow> 'df \<Rightarrow> pyval \<Rightarrow> pyval \<Rightarrow> pyval \<Rightarrow>
     pyval \<Rightarrow> pyval \<Rightarrow> (error + viz_result) \<times> call list" where
  "seaborn_viz draw df vtype x_column y_column category_column ttl =
     (let selected =
            (if vtype = PyStr ''bar'' then
               Inr (if truthy category_column
                    then Barplot x_column y_column (Some category_column)
                    else Barplot x_column y_column None)
             else if vtype = PyStr ''line'' then
               Inr (if truthy category_column
                    then Lineplot x_column y_column (Some category_column)
                    else Lineplot x_column y_column None)
             else if vtype = PyStr ''scatter'' then
               Inr (if truthy category_column
                    then Scatterplot x_column y_column (Some category_column)
                    else Scatterplot x_column y_column None)
             else if vtype = PyStr ''histogram'' then
               Inr (Histplot x_column)
             else if vtype = PyStr ''boxplot'' then
               Inr (if truthy category_column
                    then Boxplot category_column y_column
                    else Boxplot x_column y_column)
             else if vtype = PyStr ''heatmap'' then
               Inr (if truthy x_column \<and> truthy y_column \<and> truthy category_column
                    then HeatmapPivot x_column y_column category_column
                    else HeatmapCorr)
             else if vtype = PyStr ''pie'' then
               Inr (if truthy category_column
                    then Pieplot category_column
                    else Pieplot x_column)
             else Inl (UnsupportedVisualizationType vtype))
      in case selected of
           Inl e \<Rightarrow> (Inl e, [])
         | Inr pc \<Rightarrow>
             (case draw df pc ttl of
                Inl e \<Rightarrow> (Inl e, [Draw pc])
              | Inr image_base64 \<Rightarrow>
                  (Inr \<lparr>figure = image_base64, format = ''base64_png'', title = ttl,
                        viz_type = vtype, engine = ''seaborn''\<rparr>,
                   [Draw pc])))"

text \<open>\<open>VisualizationEngine.generate_visualization\<close>: only the seaborn engine is wired.\<close>

definition generate_visualization ::
  "('df \<Rightarrow> plot_call \<Rightarrow> pyval \<Rightarrow> error + string) \<Rightarrow> 'df \<Rightarrow> pyval \<Rightarrow> pyval \<Rightarrow> pyval \<Rightarrow>
     pyval \<Rightarrow> pyval \<Rightarrow> string \<Rightarrow> (error + viz_result) \<times> call list" where
  "generate_visualization draw df vtype x_column y_column category_column ttl eng =
     (if eng = ''seaborn''
      then seaborn_viz draw df vtype x_column y_column category_column ttl
      else (Inl (UnsupportedVisualizationEngine eng), []))"

section \<open>File processing\<close>

text \<open>
  The pandas calls of \<open>FileProcessor\<close>.  \<open>excel_sheet_names\<close> is
  \<open>pd.ExcelFile(path).sheet_names\<close>, \<open>read_excel path sheet\<close> reads one sheet, and
  \<open>metadata_of\<close> computes the \<open>'metadata'\<close> entry of a data frame (shape, dtypes and
  \<open>_get_summary\<close>).  Each of them may raise.
\<close>

record ('df, 'md) pandas =
  read_csv :: "string \<Rightarrow> error + 'df"
  read_csv_tab :: "string \<Rightarrow> error + 'df"
  read_json :: "string \<Rightarrow> error + 'df"
  excel_sheet_names :: "string \<Rightarrow> error + string list"
  read_excel :: "string \<Rightarrow> string \<Rightarrow> error + 'df"
  metadata_of :: "'df \<Rightarrow> error + 'md"

text \<open>
  What \<open>process_file\<close> returns: \<open>{'data': df, 'metadata': md}\<close> for a single table,
  \<open>{'sheets': {name: {'data': df, 'metadata': md}}, 'sheet_names': names}\<close> for a workbook.
\<close>

datatype ('df, 'md) processed =
    Table 'df 'md
  | Workbook "(string \<times> 'df \<times> 'md) list" "string list"

definition supported_extensions :: "string list" where
  "supported_extensions =
     [''.csv'', ''.xlsx'', ''.xls'', ''.txt'', ''.doc'', ''.docx'', ''.pdf'', ''.json'']"

text \<open>The body shared by \<open>_process_csv\<close>, \<open>_process_txt\<close> and \<open>_process_json\<close>.\<close>

definition process_table ::
  "('df, 'md) pandas \<Rightarrow> (string \<Rightarrow> error + 'df) \<Rightarrow> call \<Rightarrow> string \<Rightarrow>
     (error + ('df, 'md) processed) \<times> call list" where
  "process_table pd reader c file_path =
     (case reader file_path of
        Inl e \<Rightarrow> (Inl e, [c])
      | Inr df \<Rightarrow>
          (case metadata_of pd df of
             Inl e \<Rightarrow> (Inl e, [c])
           | Inr md \<Rightarrow> (Inr (Table df md), [c])))"

definition process_csv ::
  "('df, 'md) pandas \<Rightarrow> string \<Rightarrow> (error + ('df, 'md) processed) \<times> call list" where
  "process_csv pd file_path = process_table pd (read_csv pd) (ReadCsv file_path) file_path"

definition process_txt ::
  "('df, 'md) pandas \<Rightarrow> string \<Rightarrow> (error + ('df, 'md) processed) \<times> call list" where
  "process_txt pd file_path = process_table pd (read_csv_tab pd) (ReadCsvTab file_path) file_path"

definition process_json ::
  "('df, 'md) pandas \<Rightarrow> string \<Rightarrow> (error + ('df, 'md) processed) \<times> call list" where
  "process_json pd file_path = process_table pd (read_json pd) (ReadJson file_path) file_path"

text \<open>The loop of \<open>_process_excel\<close> over \<open>excel_file.sheet_names\<close>, filling \<open>sheets\<close>.\<close>

fun excel_sheets ::
  "('df, 'md) pandas \<Rightarrow> string \<Rightarrow> string list \<Rightarrow> (string \<times> 'df \<times> 'md) list \<Rightarrow> call list \<Rightarrow>
     (error + (string \<times> 'df \<times> 'md) list) \<times> call list" where
  "excel_sheets pd file_path [] sheets tr = (Inr sheets, tr)"
| "excel_sheets pd file_path (sheet_name # rest) sheets tr =
     (case read_excel pd file_path sheet_name of
        Inl e \<Rightarrow> (Inl e, tr @ [ReadExcel file_path sheet_name])
      | Inr df \<Rightarrow>
          (case metadata_of pd df of
             Inl e \<Rightarrow> (Inl e, tr @ [ReadExcel file_path sheet_name])
           | Inr md \<Rightarrow>
               excel_sheets pd file_path rest
                 (AList.update sheet_name (df, md) sheets)
                 (tr @ [ReadExcel file_path sheet_name])))"

definition process_excel ::
  "('df, 'md) pandas \<Rightarrow> string \<Rightarrow> (error + ('df, 'md) processed) \<times> call list" where
  "process_excel pd file_path =
     (case excel_sheet_names pd file_path of
        Inl e \<Rightarrow> (Inl e, [OpenExcel file_path])
      | Inr sheet_names \<Rightarrow>
          (case excel_sheets pd file_path sheet_names [] [OpenExcel file_path] of
             (Inl e, tr) \<Rightarrow> (Inl e, tr)
           | (Inr sheets, tr) \<Rightarrow> (Inr (Workbook sheets sheet_names), tr)))"

text \<open>
  \<open>FileProcessor.process_file\<close>.  The class defines neither \<open>_process_doc\<close> nor
  \<open>_process_pdf\<close>, so the two branches that call them raise \<open>AttributeError\<close>.
\<close>

definition process_file ::
  "('df, 'md) pandas \<Rightarrow> string \<Rightarrow> (error + ('df, 'md) processed) \<times> call list" where
  "process_file pd file_path =
     (let extension = snd (splitext file_path)
      in if extension \<notin> set supported_extensions
           then (Inl (UnsupportedFileExtension extension), [])
         else if extension = ''.csv'' then process_csv pd file_path
         else if extension = ''.xlsx'' \<or> extension = ''.xls'' then process_excel pd file_path
         else if extension = ''.txt'' then process_txt pd file_path
         else if extension = ''.doc'' \<or> extension = ''.docx''
           then (Inl (AttributeError ''_process_doc''), [])
         else if extension = ''.pdf'' then (Inl (AttributeError ''_process_pdf''), [])
         else if extension = ''.json'' then process_json pd file_path
         else (Inl (UnsupportedFileExtension extension), []))"

section \<open>The analysis engine and the agent\<close>

text \<open>
  The state of \<open>DataAnalysisEngine\<close> (\<open>self.context\<close>, \<open>self.data_frames\<close>) and of
  \<open>DataAnalysisAgent\<close>.  \<open>files\<close> is a \<open>dict\<close> whose order of insertion the code
  reads (\<open>list(self.files.keys())[0]\<close>), hence an association list; \<open>calls\<close> logs the
  calls made to collaborators.
\<close>

record ('df, 'md) engine_state =
  engine_context :: "string \<rightharpoonup> ('df, 'md) processed"
  data_frames :: "string \<rightharpoonup> 'df"

record ('df, 'md) agent =
  conversation_history :: "turn list"
  files :: "(string \<times> ('df, 'md) processed) list"
  data_analysis_engine :: "('df, 'md) engine_state"
  calls :: "call list"

text \<open>\<open>DataAnalysisEngine.add_data\<close>.\<close>

definition add_data ::
  "('df, 'md) processed \<Rightarrow> string \<Rightarrow> ('df, 'md) engine_state \<Rightarrow> ('df, 'md) engine_state" where
  "add_data processed_file_data file_id eng =
     (let eng1 = eng\<lparr>engine_context := (engine_context eng)(file_id \<mapsto> processed_file_data)\<rparr>
      in case processed_file_data of
           Table df md \<Rightarrow> eng1\<lparr>data_frames := (data_frames eng1)(file_id \<mapsto> df)\<rparr>
         | Workbook sheets sheet_names \<Rightarrow>
             eng1\<lparr>data_frames :=
                     foldl (\<lambda>m (sheet_name, df, md). m(file_id @ ''_'' @ sheet_name \<mapsto> df))
                       (data_frames eng1) sheets\<rparr>)"

text \<open>\<open>DataAnalysisAgent.process_file\<close>.\<close>

definition agent_process_file ::
  "('df, 'md) pandas \<Rightarrow> string \<Rightarrow> string \<Rightarrow> ('df, 'md) agent \<Rightarrow>
     (error + ('df, 'md) processed) \<times> ('df, 'md) agent" where
  "agent_process_file pd file_path file_id0 s =
     (let file_id = (if file_id0 = [] then basename file_path else file_id0);
          (result, tr) = process_file pd file_path;
          s1 = s\<lparr>calls := calls s @ tr\<rparr>
      in case result of
           Inl e \<Rightarrow> (Inl e, s1)
         | Inr processed_data \<Rightarrow>
             (Inr processed_data,
              s1\<lparr>data_analysis_engine :=
                    add_data processed_data file_id (data_analysis_engine s1)\<rparr>))"

text \<open>
  \<open>DataAnalysisEngine.analyze_data\<close>, as far as the agent sees it: one call of the
  language model, whose failure propagates and whose text is returned as it is.  The
  prompt, which \<open>_prepare_context\<close> assembles from the stored metadata, does not
  constrain what the model answers; it is not modelled, and its assembly is taken to
  succeed.
\<close>

definition analyze_data :: "error + string \<Rightarrow> (error + string) \<times> call list" where
  "analyze_data llm = (llm, [LlmInvoke])"

subsection \<open>Intent\<close>

definition viz_keywords :: "string list" where
  "viz_keywords =
     [''plot'', ''chart'', ''graph'', ''visualize'', ''visualization'',
      ''histogram'', ''line'', ''bar'', ''pie'', ''scatter'', ''boxplot'']"

text \<open>\<open>any(keyword in query.lower() for keyword in viz_keywords)\<close>.\<close>

definition viz_request :: "string \<Rightarrow> bool" where
  "viz_request query = list_ex (\<lambda>keyword. py_in keyword (py_lower query)) viz_keywords"

subsection \<open>Parameter extraction\<close>

text \<open>Lines 137 to 144 of \<open>_parse_visualization_request\<close>: the code fences are removed.\<close>

definition clean_response_text :: "string \<Rightarrow> string" where
  "clean_response_text response_text0 =
     (let t1 = py_strip response_text0;
          t2 = (if prefix ''```json'' t1 then drop 7 t1 else t1);
          t3 = (if prefix ''```'' t2 then drop 3 t2 else t2);
          t4 = (if suffix ''```'' t3 then py_slice t3 0 (- 3) else t3)
      in py_strip t4)"

text \<open>The \<open>try\<close> block: the model is called, its answer cleaned and parsed.\<close>

definition parse_try :: "(string \<Rightarrow> pyval option) \<Rightarrow> error + string \<Rightarrow> error + pyval" where
  "parse_try json_loads llm =
     (case llm of
        Inl e \<Rightarrow> Inl e
      | Inr response_text \<Rightarrow>
          (case json_loads (clean_response_text response_text) of
             None \<Rightarrow> Inl JSONDecodeError
           | Some v \<Rightarrow> Inr v))"

text \<open>The \<open>except\<close> block: the default parameters, read off the query.\<close>

definition quote_or_space :: "char \<Rightarrow> bool" where
  "quote_or_space c = (c = CHR '' '' \<or> c = CHR 0x22 \<or> c = CHR 0x27)"

definition default_params :: "(string \<times> 'a) list \<Rightarrow> string \<Rightarrow> (string \<times> pyval) list" where
  "default_params fs query =
     (let d0 = [(''type'', PyStr (if py_in ''histogram'' (py_lower query)
                                  then ''histogram'' else ''bar'')),
                (''x_column'', PyNone),
                (''y_column'', PyNone),
                (''category_column'', PyNone),
                (''title'', PyNone),
                (''file_id'', (case fs of [] \<Rightarrow> PyNone | kv # _ \<Rightarrow> PyStr (fst kv)))];
          d1 = (if py_in ''x-axis'' (py_lower query)
                then let x_start = py_find (py_lower query) ''x-axis'' 0 + 7;
                         x_end0 = py_find query ''.'' (nat x_start);
                         x_end = (if x_end0 = - 1 then int (length query) else x_end0);
                         x_column = py_strip (py_slice query x_start x_end)
                     in AList.update ''x_column'' (PyStr x_column) d0
                else d0);
          d2 = (if py_in ''title'' (py_lower query)
                then let title_start = py_find (py_lower query) ''title'' 0 + 5;
                         title_end0 = py_find query ''.'' (nat title_start);
                         title_end = (if title_end0 = - 1 then int (length query)
                                      else title_end0);
                         ttl = py_strip_by quote_or_space (py_slice query title_start title_end)
                     in AList.update ''title'' (PyStr ttl) d1
                else d1)
      in d2)"

text \<open>
  \<open>DataAnalysisAgent._parse_visualization_request\<close>: whatever the \<open>try\<close> block raises is
  caught, and the default parameters are returned instead.
\<close>

definition parse_visualization_request ::
  "(string \<Rightarrow> pyval option) \<Rightarrow> error + string \<Rightarrow> (string \<times> 'a) list \<Rightarrow> string \<Rightarrow>
     (error + pyval) \<times> call list" where
  "parse_visualization_request json_loads llm fs query =
     (case parse_try json_loads llm of
        Inr v \<Rightarrow> (Inr v, [LlmInvoke])
      | Inl e \<Rightarrow> (Inr (PyDict (default_params fs query)), [LlmInvoke]))"

subsection \<open>Answering a query\<close>

text \<open>\<open>viz_params.get\<close> exists only when \<open>json.loads\<close> returned a dictionary.\<close>

fun dict_of :: "pyval \<Rightarrow> error + (string \<times> pyval) list" where
  "dict_of (PyDict d) = Inr d"
| "dict_of v = Inl (AttributeError ''get'')"

text \<open>\<open>k in data_frames\<close> and \<open>data_frames[k]\<close>; the keys of \<open>data_frames\<close> are strings.\<close>

fun frame_lookup :: "(string \<rightharpoonup> 'df) \<Rightarrow> pyval \<Rightarrow> error + 'df option" where
  "frame_lookup m (PyStr k) = Inr (m k)"
| "frame_lookup m (PyList xs) = Inl (TypeError ''unhashable type'')"
| "frame_lookup m (PyDict d) = Inl (TypeError ''unhashable type'')"
| "frame_lookup m v = Inr None"

text \<open>Lines 94 to 100 of \<open>ask\<close>: the answer is recorded and returned.\<close>

definition respond ::
  "response \<Rightarrow> ('df, 'md) agent \<Rightarrow> (error + response) \<times> ('df, 'md) agent" where
  "respond r s =
     (Inr r,
      s\<lparr>conversation_history :=
          conversation_history s @ [\<lparr>role = Assistant, content = response_message r\<rparr>]\<rparr>)"

text \<open>
  Lines 52 to 81 of \<open>ask\<close>: the visualization branch.  The \<open>print\<close> of line 70 writes
  to the standard output only and is left out.
\<close>

definition ask_visualization ::
  "(string \<Rightarrow> pyval option) \<Rightarrow> error + string \<Rightarrow>
   ('df \<Rightarrow> plot_call \<Rightarrow> pyval \<Rightarrow> error + string) \<Rightarrow> string \<Rightarrow> string \<Rightarrow> ('df, 'md) agent \<Rightarrow>
     (error + response) \<times> ('df, 'md) agent" where
  "ask_visualization json_loads llm draw file_id query s1 =
     (case parse_visualization_request json_loads llm (files s1) query of
        (Inl e, tr) \<Rightarrow> (Inl e, s1\<lparr>calls := calls s1 @ tr\<rparr>)
      | (Inr viz_params, tr) \<Rightarrow>
          (let s2 = s1\<lparr>calls := calls s1 @ tr\<rparr>
           in case dict_of viz_params of
                Inl e \<Rightarrow> (Inl e, s2)
              | Inr d \<Rightarrow>
                  (let viz_file_id = dict_get d ''file_id'' (PyStr file_id);
                       not_found = respond (TextResponse (FileNotFound viz_file_id)) s2
                   in if \<not> truthy viz_file_id then not_found
                      else case frame_lookup (data_frames (data_analysis_engine s2)) viz_file_id of
                             Inl e \<Rightarrow> (Inl e, s2)
                           | Inr None \<Rightarrow> not_found
                           | Inr (Some df) \<Rightarrow>
                               (case generate_visualization draw df
                                       (dict_get d ''type'' (PyStr ''bar''))
                                       (dict_get d ''x_column'' PyNone)
                                       (dict_get d ''y_column'' PyNone)
                                       (dict_get d ''category_column'' PyNone)
                                       (dict_get d ''title'' PyNone)
                                       ''seaborn'' of
                                  (Inl e, tr2) \<Rightarrow> (Inl e, s2\<lparr>calls := calls s2 @ tr2\<rparr>)
                                | (Inr viz_res, tr2) \<Rightarrow>
                                    (let s3 = s2\<lparr>calls := calls s2 @ tr2\<rparr>
                                     in case map_of d ''type'' of
                                          None \<Rightarrow> (Inl (KeyError ''type''), s3)
                                        | Some t \<Rightarrow>
                                            respond
                                              (VisualizationResponse viz_res (HereIsViz t))
                                              s3)))))"

text \<open>
  \<open>DataAnalysisAgent.ask\<close>.  The arguments \<open>json_loads\<close>, \<open>llm\<close> and \<open>draw\<close> are the
  collaborators: the JSON parser (\<open>None\<close> when it raises), the outcome of the one call
  of the language model that a query can make, and the plotting library.
\<close>

definition ask ::
  "(string \<Rightarrow> pyval option) \<Rightarrow> error + string \<Rightarrow>
   ('df \<Rightarrow> plot_call \<Rightarrow> pyval \<Rightarrow> error + string) \<Rightarrow> string \<Rightarrow> ('df, 'md) agent \<Rightarrow>
     (error + response) \<times> ('df, 'md) agent" where
  "ask json_loads llm draw query s =
     (let s1 = s\<lparr>conversation_history :=
                   conversation_history s @ [\<lparr>role = User, content = Literal query\<rparr>]\<rparr>
      in case files s1 of
           [] \<Rightarrow> (Inl NoFilesProcessed, s1)
         | kv # _ \<Rightarrow>
             (let file_id = fst kv
              in if file_id = [] then (Inl NoFilesProcessed, s1)
                 else if viz_request query
                   then ask_visualization json_loads llm draw file_id query s1
                 else case analyze_data llm of
                        (Inl e, tr) \<Rightarrow> (Inl e, s1\<lparr>calls := calls s1 @ tr\<rparr>)
                      | (Inr txt, tr) \<Rightarrow>
                          respond (TextResponse (Literal txt)) (s1\<lparr>calls := calls s1 @ tr\<rparr>)))"

section \<open>Auxiliary notions\<close>

text \<open>\<open>sub\<close> occurs in \<open>s\<close> at index \<open>i\<close> and at no smaller index.\<close>

definition first_occurrence :: "string \<Rightarrow> string \<Rightarrow> nat \<Rightarrow> bool" where
  "first_occurrence sub s i =
     (i \<le> length s \<and> prefix sub (drop i s) \<and> list_all (\<lambda>j. \<not> prefix sub (drop j s)) [0..<i])"

text \<open>
  The words of the specification for the two substring rules, to compare the code with:
  the text that follows the first occurrence of the marker immediately, up to the next
  period or the end of the string.
\<close>

definition text_following :: "string \<Rightarrow> string \<Rightarrow> string" where
  "text_following marker q =
     (case find_prefix marker q of
        None \<Rightarrow> []
      | Some i \<Rightarrow> takeWhile (\<lambda>c. c \<noteq> CHR ''.'') (drop (i + length marker) q))"

section \<open>Initial state and sample collaborators\<close>

text \<open>\<open>DataAnalysisAgent.__init__\<close>: no history, no files, empty engine.\<close>

definition new_agent :: "('df, 'md) agent" where
  "new_agent =
     \<lparr>conversation_history = [], files = [],
      data_analysis_engine = \<lparr>engine_context = Map.empty, data_frames = Map.empty\<rparr>,
      calls = []\<rparr>"

text \<open>
  Concrete collaborators at which the theorems below are evaluated.  A data frame is
  represented by a string that names its content; the agent \<open>sample_agent\<close> is the one
  reached after \<open>loans.csv\<close> has been uploaded.
\<close>

definition sample_agent :: "(string, unit) agent" where
  "sample_agent =
     \<lparr>conversation_history = [],
      files = [(''loans.csv'', Table ''loans'' ())],
      data_analysis_engine =
        \<lparr>engine_context = [''loans.csv'' \<mapsto> Table ''loans'' ()],
         data_frames = [''loans.csv'' \<mapsto> ''loans'']\<rparr>,
      calls = []\<rparr>"

definition sample_draw :: "string \<Rightarrow> plot_call \<Rightarrow> pyval \<Rightarrow> error + string" where
  "sample_draw df pc ttl = Inr ''iVBORw0KGgo=''"

definition reply_other_file :: string where
  \<open>reply_other_file = ''{"type": "bar", "x_column": "Age", "file_id": "other.csv"}''\<close>

definition reply_list_file_id :: string where
  \<open>reply_list_file_id = ''{"type": "bar", "x_column": "Age", "file_id": ["loans.csv"]}''\<close>

definition reply_area_chart :: string where
  \<open>reply_area_chart = ''```json {"type": "area", "x_column": "Age", "file_id": "loans.csv"} ```''\<close>

definition reply_without_type :: string where
  \<open>reply_without_type = ''{"x_column": "Age", "file_id": "loans.csv"}''\<close>

text \<open>What \<open>json.loads\<close> makes of the four replies; any other text is taken not to parse.\<close>

definition sample_json_loads :: "string \<Rightarrow> pyval option" where
  \<open>sample_json_loads t =
     (if t = ''{"type": "bar", "x_column": "Age", "file_id": "other.csv"}''
        then Some (PyDict [(''type'', PyStr ''bar''), (''x_column'', PyStr ''Age''),
                           (''file_id'', PyStr ''other.csv'')])
      else if t = ''{"type": "bar", "x_column": "Age", "file_id": ["loans.csv"]}''
        then Some (PyDict [(''type'', PyStr ''bar''), (''x_column'', PyStr ''Age''),
                           (''file_id'', PyList [PyStr ''loans.csv''])])
      else if t = ''{"type": "area", "x_column": "Age", "file_id": "loans.csv"}''
        then Some (PyDict [(''type'', PyStr ''area''), (''x_column'', PyStr ''Age''),
                           (''file_id'', PyStr ''loans.csv'')])
      else if t = ''{"x_column": "Age", "file_id": "loans.csv"}''
        then Some (PyDict [(''x_column'', PyStr ''Age''), (''file_id'', PyStr ''loans.csv'')])
      else None)\<close>

definition sample_read :: "string \<Rightarrow> error + string" where
  "sample_read file_path = Inr file_path"

definition sample_sheet_names :: "string \<Rightarrow> error + string list" where
  "sample_sheet_names file_path = Inr [''Q1'', ''Q2'']"

definition sample_read_excel :: "string \<Rightarrow> string \<Rightarrow> error + string" where
  "sample_read_excel file_path sheet_name = Inr (file_path @ ''#'' @ sheet_name)"

definition sample_metadata :: "string \<Rightarrow> error + unit" where
  "sample_metadata df = Inr ()"

definition sample_pandas :: "(string, unit) pandas" where
  "sample_pandas =
     \<lparr>read_csv = sample_read, read_csv_tab = sample_read, read_json = sample_read,
      excel_sheet_names = sample_sheet_names, read_excel = sample_read_excel,
      metadata_of = sample_metadata\<rparr>"

section \<open>Facts about the string operations and the fallback\<close>

lemma find_prefix_sublist: "(find_prefix sub s \<noteq> None) = sublist sub s"
proof (induction s)
  case Nil
  show ?case by simp
next
  case (Cons c cs)
  show ?case
  proof (cases "prefix sub (c # cs)")
    case True
    then show ?thesis by (simp add: sublist_Cons_right)
  next
    case False
    then show ?thesis using Cons.IH by (simp add: sublist_Cons_right)
  qed
qed

lemma py_in_sublist: "py_in sub s = sublist sub s"
  unfolding py_in_def by (rule find_prefix_sublist)

lemma first_occurrence_Cons:
  "first_occurrence sub (c # cs) (Suc k) \<Longrightarrow> first_occurrence sub cs k"
proof -
  assume a: "first_occurrence sub (c # cs) (Suc k)"
  have "\<forall>j<k. \<not> prefix sub (drop j cs)"
  proof (intro allI impI)
    fix j assume "j < k"
    then have "Suc j \<in> set [0..<Suc k]" by auto
    with a have "\<not> prefix sub (drop (Suc j) (c # cs))"
      unfolding first_occurrence_def list_all_iff by blast
    then show "\<not> prefix sub (drop j cs)" by simp
  qed
  with a show ?thesis
    unfolding first_occurrence_def list_all_iff by simp
qed

lemma first_occurrence_find: "first_occurrence sub s i \<Longrightarrow> find_prefix sub s = Some i"
proof (induction s arbitrary: i)
  case Nil
  then show ?case by (simp add: first_occurrence_def)
next
  case (Cons c cs)
  show ?case
  proof (cases "prefix sub (c # cs)")
    case True
    have "i = 0"
    proof (rule ccontr)
      assume "i \<noteq> 0"
      then have "0 \<in> set [0..<i]" by simp
      with Cons.prems have "\<not> prefix sub (drop 0 (c # cs))"
        unfolding first_occurrence_def list_all_iff by blast
      with True show False by simp
    qed
    with True show ?thesis by simp
  next
    case False
    have "i \<noteq> 0"
    proof
      assume "i = 0"
      with Cons.prems have "prefix sub (c # cs)" by (simp add: first_occurrence_def)
      with False show False by simp
    qed
    then obtain k where k: "i = Suc k" by (cases i) auto
    from Cons.prems have "first_occurrence sub cs k"
      unfolding k by (rule first_occurrence_Cons)
    then have "find_prefix sub cs = Some k" by (rule Cons.IH)
    with False k show ?thesis by simp
  qed
qed

lemma find_prefix_char:
  "find_prefix [c] s = (if c \<in> set s then Some (length (takeWhile (\<lambda>x. x \<noteq> c) s)) else None)"
  by (induction s) auto

lemma slice_to_char:
  "py_slice q (int a) (if py_find q [c] a = - 1 then int (length q) else py_find q [c] a)
     = takeWhile (\<lambda>x. x \<noteq> c) (drop a q)"
proof (cases "length q < a")
  case True
  then show ?thesis by (simp add: py_find_def py_slice_def py_index_def)
next
  case False
  show ?thesis
  proof (cases "c \<in> set (drop a q)")
    case True
    define k where "k = length (takeWhile (\<lambda>x. x \<noteq> c) (drop a q))"
    have "k \<le> length (drop a q)" unfolding k_def by (rule length_takeWhile_le)
    then have le: "a + k \<le> length q" using False by simp
    have f: "py_find q [c] a = int (a + k)"
      using False True by (simp add: py_find_def find_prefix_char k_def)
    have "py_slice q (int a) (int (a + k)) = take k (drop a q)"
    proof -
      have "nat (int a + int k) = a + k" by arith
      with le show ?thesis by (simp add: py_slice_def py_index_def)
    qed
    also have "\<dots> = takeWhile (\<lambda>x. x \<noteq> c) (drop a q)"
      unfolding k_def by (rule takeWhile_eq_take[symmetric])
    finally show ?thesis using f by simp
  next
    case False2: False
    then have t: "takeWhile (\<lambda>x. x \<noteq> c) (drop a q) = drop a q"
      by (auto simp: takeWhile_eq_all_conv)
    have f: "py_find q [c] a = - 1"
      using False False2 by (simp add: py_find_def find_prefix_char)
    from f have "py_slice q (int a) (if py_find q [c] a = - 1 then int (length q) else py_find q [c] a)
        = py_slice q (int a) (int (length q))" by simp
    also have "\<dots> = drop a q"
      using False by (simp add: py_slice_def py_index_def)
    also have "\<dots> = takeWhile (\<lambda>x. x \<noteq> c) (drop a q)" by (rule t[symmetric])
    finally show ?thesis .
  qed
qed

lemma length_py_lower: "length (py_lower s) = length s"
  by (simp add: py_lower_def)

lemma default_params_keys:
  "map fst (default_params fs query) =
     [''type'', ''x_column'', ''y_column'', ''category_column'', ''title'', ''file_id'']"
  by (simp add: default_params_def Let_def)

lemma default_params_type:
  "map_of (default_params fs query) ''type'' =
     Some (PyStr (if sublist ''histogram'' (py_lower query) then ''histogram'' else ''bar''))"
  by (simp add: default_params_def Let_def py_in_sublist update_conv')

lemma default_params_y:
  "map_of (default_params fs query) ''y_column'' = Some PyNone"
  by (simp add: default_params_def Let_def update_conv')

lemma default_params_category:
  "map_of (default_params fs query) ''category_column'' = Some PyNone"
  by (simp add: default_params_def Let_def update_conv')

lemma default_params_file_id:
  "map_of (default_params fs query) ''file_id'' =
     Some (case fs of [] \<Rightarrow> PyNone | kv # _ \<Rightarrow> PyStr (fst kv))"
  by (simp add: default_params_def Let_def update_conv')

lemma default_params_x_unset:
  "\<not> sublist ''x-axis'' (py_lower query) \<Longrightarrow>
     map_of (default_params fs query) ''x_column'' = Some PyNone"
  by (simp add: default_params_def Let_def py_in_sublist update_conv')

lemma default_params_x:
  assumes "first_occurrence ''x-axis'' (py_lower query) i"
  shows "map_of (default_params fs query) ''x_column'' =
     Some (PyStr (py_strip (takeWhile (\<lambda>c. c \<noteq> CHR ''.'') (drop (i + 7) query))))"
proof -
  from assms have f: "find_prefix ''x-axis'' (py_lower query) = Some i"
    by (rule first_occurrence_find)
  then have a: "py_in ''x-axis'' (py_lower query)" by (simp add: py_in_def)
  from f have b: "py_find (py_lower query) ''x-axis'' 0 = int i"
    by (simp add: py_find_def)
  have c: "nat (int i + 7) = i + 7" by arith
  have d: "int i + 7 = int (i + 7)" by simp
  show ?thesis
    unfolding default_params_def Let_def
    by (simp only: a b c if_True, simp only: d slice_to_char, simp add: update_conv')
qed

lemma default_params_title:
  assumes "first_occurrence ''title'' (py_lower query) j"
  shows "map_of (default_params fs query) ''title'' =
     Some (PyStr (py_strip_by quote_or_space
                    (takeWhile (\<lambda>c. c \<noteq> CHR ''.'') (drop (j + 5) query))))"
proof -
  from assms have f: "find_prefix ''title'' (py_lower query) = Some j"
    by (rule first_occurrence_find)
  then have a: "py_in ''title'' (py_lower query)" by (simp add: py_in_def)
  from f have b: "py_find (py_lower query) ''title'' 0 = int j"
    by (simp add: py_find_def)
  have c: "nat (int j + 5) = j + 5" by arith
  have d: "int j + 5 = int (j + 5)" by simp
  show ?thesis
    unfolding default_params_def Let_def
    by (simp only: a b c if_True, simp only: d slice_to_char, simp add: update_conv')
qed

lemma parse_fallback:
  "parse_try json_loads llm = Inl e \<Longrightarrow>
     fst (parse_visualization_request json_loads llm fs query) = Inr (PyDict (default_params fs query))"
  by (simp add: parse_visualization_request_def)

lemma parse_try_fails:
  "llm = Inl e \<or> (\<exists>t. llm = Inr t \<and> json_loads (clean_response_text t) = None) \<Longrightarrow>
     \<exists>e'. parse_try json_loads llm = Inl e'"
  by (auto simp: parse_try_def)

lemma parse_calls:
  "snd (parse_visualization_request json_loads llm fs query) = [LlmInvoke]"
  by (cases "parse_try json_loads llm") (simp_all add: parse_visualization_request_def)

lemma parse_success:
  "llm = Inr t \<Longrightarrow> json_loads (clean_response_text t) = Some v \<Longrightarrow>
     fst (parse_visualization_request json_loads llm fs query) = Inr v"
  by (simp add: parse_visualization_request_def parse_try_def)

lemma ask_visualization_branch:
  assumes "files s = kv # rest" and "fst kv \<noteq> []" and "viz_request query"
  shows "ask json_loads llm draw query s =
     ask_visualization json_loads llm draw (fst kv) query
       (s\<lparr>conversation_history :=
            conversation_history s @ [\<lparr>role = User, content = Literal query\<rparr>]\<rparr>)"
  using assms by (simp add: ask_def Let_def)

lemma frame_lookup_absent:
  assumes "\<forall>k. v = PyStr k \<longrightarrow> m k = None"
    and "\<forall>xs. v \<noteq> PyList xs" and "\<forall>d. v \<noteq> PyDict d"
  shows "frame_lookup m v = Inr None"
  using assms by (cases v) simp_all

lemma ask_visualization_not_found:
  assumes p: "parse_visualization_request json_loads llm (files s1) query = (Inr (PyDict d), tr)"
    and v: "v = dict_get d ''file_id'' (PyStr file_id)"
    and n: "\<not> truthy v \<or> frame_lookup (data_frames (data_analysis_engine s1)) v = Inr None"
  shows "ask_visualization json_loads llm draw file_id query s1 =
     respond (TextResponse (FileNotFound v)) (s1\<lparr>calls := calls s1 @ tr\<rparr>)"
proof (cases "truthy v")
  case False
  then show ?thesis using p v by (simp add: ask_visualization_def Let_def)
next
  case True
  with n have "frame_lookup (data_frames (data_analysis_engine s1)) v = Inr None" by simp
  then show ?thesis using p v True by (simp add: ask_visualization_def Let_def)
qed

lemma generate_unsupported:
  assumes "v \<notin> PyStr ` {''bar'', ''line'', ''scatter'', ''histogram'', ''boxplot'',
                           ''heatmap'', ''pie''}"
  shows "generate_visualization draw df v x y c ttl ''seaborn''
      = (Inl (UnsupportedVisualizationType v), [])"
  using assms by (simp add: generate_visualization_def seaborn_viz_def)

lemma generate_bar:
  assumes "draw df (Barplot x y (if truthy c then Some c else None)) ttl = Inr img"
  shows "generate_visualization draw df (PyStr ''bar'') x y c ttl ''seaborn''
      = (Inr \<lparr>figure = img, format = ''base64_png'', title = ttl,
               viz_type = PyStr ''bar'', engine = ''seaborn''\<rparr>,
         [Draw (Barplot x y (if truthy c then Some c else None))])"
  using assms by (cases "truthy c") (simp_all add: generate_visualization_def seaborn_viz_def)

lemma ask_visualization_found:
  assumes p: "parse_visualization_request json_loads llm (files s1) query = (Inr (PyDict d), tr)"
    and v: "dict_get d ''file_id'' (PyStr file_id) = PyStr k" and k: "k \<noteq> []"
    and f: "data_frames (data_analysis_engine s1) k = Some df"
    and g: "generate_visualization draw df (dict_get d ''type'' (PyStr ''bar''))
              (dict_get d ''x_column'' PyNone) (dict_get d ''y_column'' PyNone)
              (dict_get d ''category_column'' PyNone) (dict_get d ''title'' PyNone)
              ''seaborn'' = (r, tr2)"
  shows "ask_visualization json_loads llm draw file_id query s1 =
     (case r of
        Inl e \<Rightarrow> (Inl e, s1\<lparr>calls := calls s1 @ tr @ tr2\<rparr>)
      | Inr viz_res \<Rightarrow>
          (case map_of d ''type'' of
             None \<Rightarrow> (Inl (KeyError ''type''), s1\<lparr>calls := calls s1 @ tr @ tr2\<rparr>)
           | Some t \<Rightarrow>
               respond (VisualizationResponse viz_res (HereIsViz t))
                 (s1\<lparr>calls := calls s1 @ tr @ tr2\<rparr>)))"
  using p v k f g
  by (cases r) (simp_all add: ask_visualization_def Let_def split: option.splits)

lemma update_fresh:
  "k \<notin> fst ` set al \<Longrightarrow> AList.update k v al = al @ [(k, v)]"
  by (induction al) auto

lemma fold_update_distinct:
  "distinct ns \<Longrightarrow> set ns \<inter> fst ` set al = {} \<Longrightarrow>
     foldl (\<lambda>al n. AList.update n (f n) al) al ns = al @ map (\<lambda>n. (n, f n)) ns"
proof (induction ns arbitrary: al)
  case Nil
  then show ?case by simp
next
  case (Cons n ns)
  from Cons.prems have fresh: "n \<notin> fst ` set al" by auto
  then have u: "AList.update n (f n) al = al @ [(n, f n)]" by (rule update_fresh)
  have d: "distinct ns" using Cons.prems by simp
  have i: "set ns \<inter> fst ` set (al @ [(n, f n)]) = {}" using Cons.prems by auto
  show ?case using Cons.IH[OF d i] u by simp
qed

lemma excel_sheets_ok:
  assumes "\<forall>n\<in>set ns. read_excel pd file_path n = Inr (dfs n) \<and> metadata_of pd (dfs n) = Inr (mds n)"
  shows "excel_sheets pd file_path ns sheets tr =
     (Inr (foldl (\<lambda>al n. AList.update n (dfs n, mds n) al) sheets ns),
      tr @ map (ReadExcel file_path) ns)"
  using assms by (induction ns arbitrary: sheets tr) simp_all

lemma register_other:
  "k \<notin> (\<lambda>n. file_id @ ''_'' @ n) ` set ns \<Longrightarrow>
     foldl (\<lambda>m (sheet_name, df, md). m(file_id @ ''_'' @ sheet_name \<mapsto> df)) m
       (map (\<lambda>n. (n, dfs n, mds n)) ns) k = m k"
  by (induction ns arbitrary: m) auto

lemma register_sheet:
  "n \<in> set ns \<Longrightarrow>
     foldl (\<lambda>m (sheet_name, df, md). m(file_id @ ''_'' @ sheet_name \<mapsto> df)) m
       (map (\<lambda>n. (n, dfs n, mds n)) ns) (file_id @ ''_'' @ n) = Some (dfs n)"
proof (induction ns arbitrary: m)
  case Nil
  then show ?case by simp
next
  case (Cons a ns)
  show ?case
  proof (cases "n \<in> set ns")
    case True
    then show ?thesis using Cons.IH by simp
  next
    case False
    with Cons.prems have na: "n = a" by simp
    from False have ni: "file_id @ ''_'' @ n \<notin> (\<lambda>n. file_id @ ''_'' @ n) ` set ns" by auto
    have "foldl (\<lambda>m (sheet_name, df, md). m(file_id @ ''_'' @ sheet_name \<mapsto> df)) m
            (map (\<lambda>n. (n, dfs n, mds n)) (a # ns)) (file_id @ ''_'' @ n)
        = foldl (\<lambda>m (sheet_name, df, md). m(file_id @ ''_'' @ sheet_name \<mapsto> df))
            (m(file_id @ ''_'' @ a \<mapsto> dfs a))
            (map (\<lambda>n. (n, dfs n, mds n)) ns) (file_id @ ''_'' @ n)"
      by simp
    also have "\<dots> = (m(file_id @ ''_'' @ a \<mapsto> dfs a)) (file_id @ ''_'' @ n)"
      using ni by (rule register_other)
    also have "\<dots> = Some (dfs n)" using na by simp
    finally show ?thesis .
  qed
qed

lemma sheet_keys_card:
  "distinct ns \<Longrightarrow> card ((\<lambda>n. file_id @ ''_'' @ n) ` set ns) = length ns"
proof -
  assume d: "distinct ns"
  have "inj_on (\<lambda>n. file_id @ ''_'' @ n) (set ns)" by (rule inj_onI) simp
  then have "card ((\<lambda>n. file_id @ ''_'' @ n) ` set ns) = card (set ns)" by (rule card_image)
  with d show ?thesis by (simp add: distinct_card)
qed

lemma process_excel_ok:
  assumes "excel_sheet_names pd file_path = Inr ns" and "distinct ns"
    and "\<forall>n\<in>set ns. read_excel pd file_path n = Inr (dfs n) \<and> metadata_of pd (dfs n) = Inr (mds n)"
  shows "process_excel pd file_path =
     (Inr (Workbook (map (\<lambda>n. (n, dfs n, mds n)) ns) ns),
      OpenExcel file_path # map (ReadExcel file_path) ns)"
proof -
  have "foldl (\<lambda>al n. AList.update n (dfs n, mds n) al) [] ns
      = [] @ map (\<lambda>n. (n, dfs n, mds n)) ns"
    using assms(2) by (intro fold_update_distinct) simp_all
  then show ?thesis
    using assms(1) excel_sheets_ok[OF assms(3), of "[]" "[OpenExcel file_path]"]
    by (simp add: process_excel_def)
qed

lemma histogram_lower:
  assumes "sublist ''histogram'' query"
  shows "sublist ''histogram'' (py_lower query)"
proof -
  have "sublist (map py_lower_char ''histogram'') (map py_lower_char query)"
    using assms by (rule map_mono_sublist)
  moreover have "map py_lower_char ''histogram'' = ''histogram''" by code_simp
  ultimately show ?thesis by (simp add: py_lower_def)
qed

section \<open>The claims of the specification\<close>

text \<open>
Claim C3.  The test of \<open>ask\<close> that selects the visualization branch holds exactly
  when the lower-cased query contains one of the eleven keywords; "show me a bar chart
  of sales" is a visualization request, "what is the average loan amount" and the empty
  query are not.
\<close>

theorem intent_classifier:
  "(viz_request query \<longleftrightarrow>
      (\<exists>keyword \<in> {''plot'', ''chart'', ''graph'', ''visualize'', ''visualization'',
                    ''histogram'', ''line'', ''bar'', ''pie'', ''scatter'', ''boxplot''}.
         sublist keyword (py_lower query)))
   \<and> viz_request ''show me a bar chart of sales''
   \<and> \<not> viz_request ''what is the average loan amount''
   \<and> \<not> viz_request ''''"
proof (intro conjI)
  show "viz_request query \<longleftrightarrow>
      (\<exists>keyword \<in> {''plot'', ''chart'', ''graph'', ''visualize'', ''visualization'',
                    ''histogram'', ''line'', ''bar'', ''pie'', ''scatter'', ''boxplot''}.
         sublist keyword (py_lower query))"
    unfolding viz_request_def viz_keywords_def list_ex_iff py_in_sublist by simp
  show "viz_request ''show me a bar chart of sales''" by code_simp
  show "\<not> viz_request ''what is the average loan amount''" by code_simp
  show "\<not> viz_request ''''" by code_simp
qed

text \<open>
The classifier at a query that holds a keyword in capitals.
\<close>

theorem intent_classifier_witness:
  "viz_request ''Draw a LINE through it'' \<and> sublist ''line'' (py_lower ''Draw a LINE through it'')"
proof -
  have s: "sublist ''line'' (py_lower ''Draw a LINE through it'')"
    unfolding py_in_sublist[symmetric] by code_simp
  then have e: "\<exists>keyword \<in> {''plot'', ''chart'', ''graph'', ''visualize'', ''visualization'',
                    ''histogram'', ''line'', ''bar'', ''pie'', ''scatter'', ''boxplot''}.
         sublist keyword (py_lower ''Draw a LINE through it'')"
    by (intro bexI[of _ "''line''"]) simp_all
  have v: "viz_request ''Draw a LINE through it''"
    by (rule iffD2[OF conjunct1[OF intent_classifier[of "''Draw a LINE through it''"]] e])
  from v s show ?thesis by (rule conjI)
qed

text \<open>
Claim C2, as amended.  When the model call raises, or the cleaned answer is not JSON,
  the extractor returns the default parameters: the chart type is \<open>histogram\<close> if
  "histogram" occurs in the lower-cased query, that is in the query in any letter case,
  and \<open>bar\<close> otherwise; in particular it is \<open>histogram\<close> whenever the query
  contains "histogram" as written.  The x-column, the y-column and the category column
  default to unset, the x-column staying unset unless the query names an x-axis; the
  dataset key is the first key of \<open>files\<close>.
\<close>

theorem extraction_fallback:
  assumes "llm = Inl e \<or> (\<exists>t. llm = Inr t \<and> json_loads (clean_response_text t) = None)"
  shows "\<exists>d. fst (parse_visualization_request json_loads llm fs query) = Inr (PyDict d)
     \<and> map_of d ''type'' =
         Some (PyStr (if sublist ''histogram'' (py_lower query) then ''histogram'' else ''bar''))
     \<and> (sublist ''histogram'' query \<longrightarrow> map_of d ''type'' = Some (PyStr ''histogram''))
     \<and> (\<not> sublist ''x-axis'' (py_lower query) \<longrightarrow> map_of d ''x_column'' = Some PyNone)
     \<and> map_of d ''y_column'' = Some PyNone
     \<and> map_of d ''category_column'' = Some PyNone
     \<and> map_of d ''file_id'' = Some (case fs of [] \<Rightarrow> PyNone | kv # _ \<Rightarrow> PyStr (fst kv))"
proof -
  from parse_try_fails[OF assms] obtain e' where "parse_try json_loads llm = Inl e'" ..
  then have p: "fst (parse_visualization_request json_loads llm fs query)
      = Inr (PyDict (default_params fs query))"
    by (rule parse_fallback)
  show ?thesis
  proof (intro exI[of _ "default_params fs query"] conjI impI)
    show "fst (parse_visualization_request json_loads llm fs query)
      = Inr (PyDict (default_params fs query))" by (rule p)
    show "map_of (default_params fs query) ''type'' =
         Some (PyStr (if sublist ''histogram'' (py_lower query) then ''histogram'' else ''bar''))"
      by (rule default_params_type)
    show "map_of (default_params fs query) ''y_column'' = Some PyNone"
      by (rule default_params_y)
    show "map_of (default_params fs query) ''category_column'' = Some PyNone"
      by (rule default_params_category)
    show "map_of (default_params fs query) ''file_id'' =
        Some (case fs of [] \<Rightarrow> PyNone | kv # _ \<Rightarrow> PyStr (fst kv))"
      by (rule default_params_file_id)
  next
    assume "sublist ''histogram'' query"
    then have "sublist ''histogram'' (py_lower query)" by (rule histogram_lower)
    then show "map_of (default_params fs query) ''type'' = Some (PyStr ''histogram'')"
      by (simp add: default_params_type)
  next
    assume "\<not> sublist ''x-axis'' (py_lower query)"
    then show "map_of (default_params fs query) ''x_column'' = Some PyNone"
      by (rule default_params_x_unset)
  qed
qed

text \<open>
The fallback for "Create a histogram of Age" with the one file \<open>loans.csv\<close>, under a
  model call that raises: chart type \<open>histogram\<close>, dataset key \<open>loans.csv\<close>.
\<close>

theorem extraction_fallback_witness:
  "\<exists>d. fst (parse_visualization_request Map.empty (Inl (LibraryError ''connection refused''))
              [(''loans.csv'', ())] ''Create a histogram of Age'') = Inr (PyDict d)
     \<and> map_of d ''type'' = Some (PyStr ''histogram'')
     \<and> map_of d ''x_column'' = Some PyNone
     \<and> map_of d ''y_column'' = Some PyNone
     \<and> map_of d ''category_column'' = Some PyNone
     \<and> map_of d ''file_id'' = Some (PyStr ''loans.csv'')"
proof -
  have h: "sublist ''histogram'' (py_lower ''Create a histogram of Age'')"
    unfolding py_in_sublist[symmetric] by code_simp
  have x: "\<not> sublist ''x-axis'' (py_lower ''Create a histogram of Age'')"
    unfolding py_in_sublist[symmetric] by code_simp
  have a: "Inl (LibraryError ''connection refused'') = Inl (LibraryError ''connection refused'')
      \<or> (\<exists>t. (Inl (LibraryError ''connection refused'') :: error + string) = Inr t
             \<and> Map.empty (clean_response_text t) = (None :: pyval option))"
    by simp
  from extraction_fallback[OF a, of "[(''loans.csv'', ())]" "''Create a histogram of Age''"]
  obtain d where d: "fst (parse_visualization_request Map.empty
        (Inl (LibraryError ''connection refused''))
        [(''loans.csv'', ())] ''Create a histogram of Age'') = Inr (PyDict d)
     \<and> map_of d ''type'' =
         Some (PyStr (if sublist ''histogram'' (py_lower ''Create a histogram of Age'')
                      then ''histogram'' else ''bar''))
     \<and> (sublist ''histogram'' ''Create a histogram of Age'' \<longrightarrow>
           map_of d ''type'' = Some (PyStr ''histogram''))
     \<and> (\<not> sublist ''x-axis'' (py_lower ''Create a histogram of Age'') \<longrightarrow>
           map_of d ''x_column'' = Some PyNone)
     \<and> map_of d ''y_column'' = Some PyNone
     \<and> map_of d ''category_column'' = Some PyNone
     \<and> map_of d ''file_id'' =
         Some (case [(''loans.csv'', ())] of [] \<Rightarrow> PyNone | kv # _ \<Rightarrow> PyStr (fst kv))" ..
  show ?thesis
    by (rule exI[of _ d]) (use d h x in simp)
qed

text \<open>
Claim C2 as stated gives the chart type \<open>bar\<close> to every query in which the word
  "histogram" does not appear.  The code looks for it in the lower-cased query: the word
  does not appear in "HISTOGRAM of Age", and the chart type is \<open>histogram\<close>.
\<close>

theorem extraction_fallback_counterexample:
  "\<not> sublist ''histogram'' ''HISTOGRAM of Age''
   \<and> fst (parse_visualization_request Map.empty (Inl (LibraryError ''connection refused''))
          [(''loans.csv'', ())] ''HISTOGRAM of Age'')
       = Inr (PyDict [(''type'', PyStr ''histogram''), (''x_column'', PyNone),
                      (''y_column'', PyNone), (''category_column'', PyNone),
                      (''title'', PyNone), (''file_id'', PyStr ''loans.csv'')])"
proof (rule conjI)
  show "\<not> sublist ''histogram'' ''HISTOGRAM of Age''"
    unfolding py_in_sublist[symmetric] by code_simp
  show "fst (parse_visualization_request Map.empty (Inl (LibraryError ''connection refused''))
          [(''loans.csv'', ())] ''HISTOGRAM of Age'')
       = Inr (PyDict [(''type'', PyStr ''histogram''), (''x_column'', PyNone),
                      (''y_column'', PyNone), (''category_column'', PyNone),
                      (''title'', PyNone), (''file_id'', PyStr ''loans.csv'')])"
    by code_simp
qed

text \<open>
Claim C4, as amended.  In the fallback, when "x-axis" first occurs in the lower-cased
  query at index \<open>i\<close>, the x-column is the text of the query from index \<open>i + 7\<close> (one
  character after the marker) up to the next period or the end, with surrounding white
  space removed; when "title" first occurs at index \<open>j\<close>, the title is the text from
  index \<open>j + 5\<close> up to the next period or the end, with the surrounding spaces and
  quotes removed.
\<close>

theorem substring_rules:
  assumes "parse_try json_loads llm = Inl e"
  shows "fst (parse_visualization_request json_loads llm fs query)
           = Inr (PyDict (default_params fs query))
     \<and> (first_occurrence ''x-axis'' (py_lower query) i \<longrightarrow>
          map_of (default_params fs query) ''x_column'' =
            Some (PyStr (py_strip (takeWhile (\<lambda>c. c \<noteq> CHR ''.'') (drop (i + 7) query)))))
     \<and> (first_occurrence ''title'' (py_lower query) j \<longrightarrow>
          map_of (default_params fs query) ''title'' =
            Some (PyStr (py_strip_by quote_or_space
                           (takeWhile (\<lambda>c. c \<noteq> CHR ''.'') (drop (j + 5) query)))))"
proof (intro conjI impI)
  show "fst (parse_visualization_request json_loads llm fs query)
           = Inr (PyDict (default_params fs query))"
    using assms by (rule parse_fallback)
next
  assume "first_occurrence ''x-axis'' (py_lower query) i"
  then show "map_of (default_params fs query) ''x_column'' =
            Some (PyStr (py_strip (takeWhile (\<lambda>c. c \<noteq> CHR ''.'') (drop (i + 7) query))))"
    by (rule default_params_x)
next
  assume "first_occurrence ''title'' (py_lower query) j"
  then show "map_of (default_params fs query) ''title'' =
            Some (PyStr (py_strip_by quote_or_space
                           (takeWhile (\<lambda>c. c \<noteq> CHR ''.'') (drop (j + 5) query))))"
    by (rule default_params_title)
qed

text \<open>
The two rules on "Plot with x-axis CreditScore. title Loan Overview.": the x-column is
  \<open>CreditScore\<close> and the title is \<open>Loan Overview\<close>.
\<close>

theorem substring_rules_witness:
  "fst (parse_visualization_request Map.empty (Inl (LibraryError ''connection refused''))
          [(''loans.csv'', ())] ''Plot with x-axis CreditScore. title Loan Overview.'')
     = Inr (PyDict (default_params [(''loans.csv'', ())]
                      ''Plot with x-axis CreditScore. title Loan Overview.''))
   \<and> map_of (default_params [(''loans.csv'', ())]
                ''Plot with x-axis CreditScore. title Loan Overview.'') ''x_column''
       = Some (PyStr ''CreditScore'')
   \<and> map_of (default_params [(''loans.csv'', ())]
                ''Plot with x-axis CreditScore. title Loan Overview.'') ''title''
       = Some (PyStr ''Loan Overview'')"
proof -
  have t: "parse_try Map.empty (Inl (LibraryError ''connection refused''))
             = Inl (LibraryError ''connection refused'')"
    by (simp add: parse_try_def)
  have x: "first_occurrence ''x-axis''
             (py_lower ''Plot with x-axis CreditScore. title Loan Overview.'') 10"
    by code_simp
  have ti: "first_occurrence ''title''
             (py_lower ''Plot with x-axis CreditScore. title Loan Overview.'') 30"
    by code_simp
  have vx: "py_strip (takeWhile (\<lambda>c. c \<noteq> CHR ''.'')
              (drop (10 + 7) ''Plot with x-axis CreditScore. title Loan Overview.''))
            = ''CreditScore''"
    by code_simp
  have vt: "py_strip_by quote_or_space (takeWhile (\<lambda>c. c \<noteq> CHR ''.'')
              (drop (30 + 5) ''Plot with x-axis CreditScore. title Loan Overview.''))
            = ''Loan Overview''"
    by code_simp
  note r = substring_rules[OF t, of "[(''loans.csv'', ())]"
      "''Plot with x-axis CreditScore. title Loan Overview.''" 10 30, unfolded vx vt]
  from r have a: "fst (parse_visualization_request Map.empty
          (Inl (LibraryError ''connection refused''))
          [(''loans.csv'', ())] ''Plot with x-axis CreditScore. title Loan Overview.'')
     = Inr (PyDict (default_params [(''loans.csv'', ())]
                      ''Plot with x-axis CreditScore. title Loan Overview.''))"
    by (rule conjunct1)
  have b: "map_of (default_params [(''loans.csv'', ())]
                ''Plot with x-axis CreditScore. title Loan Overview.'') ''x_column''
       = Some (PyStr ''CreditScore'')"
    by (rule mp[OF conjunct1[OF conjunct2[OF r]] x])
  have c: "map_of (default_params [(''loans.csv'', ())]
                ''Plot with x-axis CreditScore. title Loan Overview.'') ''title''
       = Some (PyStr ''Loan Overview'')"
    by (rule mp[OF conjunct2[OF conjunct2[OF r]] ti])
  from a b c show ?thesis by (intro conjI)
qed

text \<open>
Claim C4 as stated takes the text that follows "x-axis" verbatim.  The code skips the
  character after the marker and strips white space, so the two differ on
  "Plot with x-axis: CreditScore".
\<close>

theorem substring_rules_counterexample:
  "fst (parse_visualization_request Map.empty (Inl (LibraryError ''connection refused''))
          [(''loans.csv'', ())] ''Plot with x-axis: CreditScore'')
     = Inr (PyDict [(''type'', PyStr ''bar''), (''x_column'', PyStr ''CreditScore''),
                    (''y_column'', PyNone), (''category_column'', PyNone),
                    (''title'', PyNone), (''file_id'', PyStr ''loans.csv'')])
   \<and> text_following ''x-axis'' ''Plot with x-axis: CreditScore'' = '': CreditScore''"
  by code_simp

text \<open>
Claim C9.  \<open>_parse_visualization_request\<close> returns a value whatever the model does and
  whatever \<open>json.loads\<close> makes of its answer; when the \<open>try\<close> block raises, the value
  is a dictionary with exactly the keys \<open>type\<close>, \<open>x_column\<close>, \<open>y_column\<close>,
  \<open>category_column\<close>, \<open>title\<close> and \<open>file_id\<close>, whose \<open>type\<close> is
  \<open>histogram\<close> or \<open>bar\<close>.
\<close>

theorem extraction_total:
  "(\<exists>v. fst (parse_visualization_request json_loads llm fs query) = Inr v)
   \<and> (parse_try json_loads llm = Inl e \<longrightarrow>
        (\<exists>d. fst (parse_visualization_request json_loads llm fs query) = Inr (PyDict d)
           \<and> map fst d =
               [''type'', ''x_column'', ''y_column'', ''category_column'', ''title'', ''file_id'']
           \<and> (map_of d ''type'' = Some (PyStr ''histogram'')
                \<or> map_of d ''type'' = Some (PyStr ''bar''))))"
proof (intro conjI impI)
  show "\<exists>v. fst (parse_visualization_request json_loads llm fs query) = Inr v"
    by (cases "parse_try json_loads llm") (simp_all add: parse_visualization_request_def)
next
  assume "parse_try json_loads llm = Inl e"
  then have "fst (parse_visualization_request json_loads llm fs query)
      = Inr (PyDict (default_params fs query))"
    by (rule parse_fallback)
  moreover have "map_of (default_params fs query) ''type'' = Some (PyStr ''histogram'')
      \<or> map_of (default_params fs query) ''type'' = Some (PyStr ''bar'')"
    by (simp add: default_params_type)
  ultimately show "\<exists>d. fst (parse_visualization_request json_loads llm fs query) = Inr (PyDict d)
           \<and> map fst d =
               [''type'', ''x_column'', ''y_column'', ''category_column'', ''title'', ''file_id'']
           \<and> (map_of d ''type'' = Some (PyStr ''histogram'')
                \<or> map_of d ''type'' = Some (PyStr ''bar''))"
    using default_params_keys[of fs query] by (intro exI[of _ "default_params fs query"] conjI)
qed

text \<open>
The extractor when the model answers with prose instead of JSON.
\<close>

theorem extraction_total_witness:
  "parse_try Map.empty (Inr ''Sure, here is your chart'') = Inl JSONDecodeError
   \<and> (\<exists>d. fst (parse_visualization_request Map.empty (Inr ''Sure, here is your chart'')
                [(''loans.csv'', ())] ''plot Age'') = Inr (PyDict d)
           \<and> map fst d =
               [''type'', ''x_column'', ''y_column'', ''category_column'', ''title'', ''file_id'']
           \<and> (map_of d ''type'' = Some (PyStr ''histogram'')
                \<or> map_of d ''type'' = Some (PyStr ''bar'')))"
proof -
  have t: "parse_try Map.empty (Inr ''Sure, here is your chart'') = Inl JSONDecodeError"
    by (simp add: parse_try_def)
  from t mp[OF conjunct2[OF extraction_total[of Map.empty "Inr ''Sure, here is your chart''"
        "[(''loans.csv'', ())]" "''plot Age''" JSONDecodeError]] t]
  show ?thesis by (rule conjI)
qed

text \<open>
Claim C8.  When no file is registered (\<open>self.files\<close> is empty), \<open>ask\<close> raises
  \<open>ValueError("No files have been processed yet")\<close>; no collaborator is called, so no
  model call is made, and \<open>files\<close> and the engine's stores are as before.  Only the
  user's turn has been appended to the history.
\<close>

theorem no_data_guard:
  assumes "files s = []"
  shows "fst (ask json_loads llm draw query s) = Inl NoFilesProcessed
     \<and> calls (snd (ask json_loads llm draw query s)) = calls s
     \<and> files (snd (ask json_loads llm draw query s)) = files s
     \<and> data_analysis_engine (snd (ask json_loads llm draw query s)) = data_analysis_engine s
     \<and> conversation_history (snd (ask json_loads llm draw query s))
         = conversation_history s @ [\<lparr>role = User, content = Literal query\<rparr>]"
  using assms by (simp add: ask_def Let_def)

text \<open>
The guard on the freshly constructed agent.
\<close>

theorem no_data_guard_witness:
  "files (new_agent :: (string, unit) agent) = []
   \<and> fst (ask sample_json_loads (Inr reply_without_type) sample_draw ''plot Age''
            (new_agent :: (string, unit) agent)) = Inl NoFilesProcessed
   \<and> calls (snd (ask sample_json_loads (Inr reply_without_type) sample_draw ''plot Age''
                   (new_agent :: (string, unit) agent))) = []"
proof -
  have e: "files (new_agent :: (string, unit) agent) = []" by (simp add: new_agent_def)
  have c: "calls (new_agent :: (string, unit) agent) = []" by (simp add: new_agent_def)
  from e no_data_guard[OF e, of sample_json_loads "Inr reply_without_type" sample_draw
      "''plot Age''"] c
  show ?thesis by simp
qed

text \<open>
Claim C5, as amended.  For every path whose extension is none of \<open>.csv\<close>, \<open>.xlsx\<close>,
  \<open>.xls\<close>, \<open>.txt\<close>, \<open>.doc\<close>, \<open>.docx\<close>, \<open>.pdf\<close>, \<open>.json\<close>,
  \<open>process_file\<close> raises \<open>ValueError("Unsupported file extension: ...")\<close> without
  calling a parser, and the agent's stores are unchanged.
\<close>

theorem unsupported_extension:
  assumes "snd (splitext file_path) \<notin>
      {''.csv'', ''.xlsx'', ''.xls'', ''.txt'', ''.doc'', ''.docx'', ''.pdf'', ''.json''}"
  shows "process_file pd file_path
      = (Inl (UnsupportedFileExtension (snd (splitext file_path))), [])
     \<and> fst (agent_process_file pd file_path file_id s)
         = Inl (UnsupportedFileExtension (snd (splitext file_path)))
     \<and> calls (snd (agent_process_file pd file_path file_id s)) = calls s
     \<and> data_analysis_engine (snd (agent_process_file pd file_path file_id s))
         = data_analysis_engine s"
proof -
  from assms have n: "snd (splitext file_path) \<notin> set supported_extensions"
    by (simp add: supported_extensions_def)
  then have p: "process_file pd file_path
      = (Inl (UnsupportedFileExtension (snd (splitext file_path))), [])"
    by (simp add: process_file_def Let_def)
  then show ?thesis by (simp add: agent_process_file_def Let_def)
qed

text \<open>
A Markdown file is refused.
\<close>

theorem unsupported_extension_witness:
  "snd (splitext ''uploads/notes.md'') = ''.md''
   \<and> process_file sample_pandas ''uploads/notes.md''
       = (Inl (UnsupportedFileExtension ''.md''), [])"
proof -
  have s: "snd (splitext ''uploads/notes.md'') = ''.md''" by code_simp
  then have a: "snd (splitext ''uploads/notes.md'') \<notin>
      {''.csv'', ''.xlsx'', ''.xls'', ''.txt'', ''.doc'', ''.docx'', ''.pdf'', ''.json''}"
    by simp
  from s conjunct1[OF unsupported_extension[OF a, of sample_pandas]]
  show ?thesis by simp
qed

text \<open>
Claim C5 as stated covers every extension outside \<open>.csv\<close>, \<open>.xlsx\<close>, \<open>.xls\<close>,
  \<open>.txt\<close>, \<open>.json\<close>.  The extension \<open>.pdf\<close> is outside that set, yet the code lists
  it as supported and then fails on the missing method \<open>_process_pdf\<close>, not with the
  unsupported-extension error.
\<close>

theorem unsupported_extension_counterexample:
  "process_file sample_pandas ''report.pdf'' = (Inl (AttributeError ''_process_pdf''), [])"
  by code_simp

text \<open>
Claim C7.  For a workbook with the pairwise distinct sheet names \<open>sheet_names\<close>, each
  of which pandas reads, \<open>DataAnalysisAgent.process_file\<close> returns the workbook with
  exactly those sheet names, stores the frame of every sheet \<open>n\<close> under the key
  \<open>"{file_id}_{n}"\<close>, leaves every other key of \<open>data_frames\<close> as it was, and the keys
  written are as many as the sheets.  The workbook as a whole is kept in \<open>context\<close>
  under the file's own identifier.
\<close>

theorem excel_ingestion:
  assumes "snd (splitext file_path) = ''.xlsx'' \<or> snd (splitext file_path) = ''.xls''"
    and "excel_sheet_names pd file_path = Inr sheet_names"
    and "distinct sheet_names"
    and "\<forall>n\<in>set sheet_names.
           read_excel pd file_path n = Inr (dfs n) \<and> metadata_of pd (dfs n) = Inr (mds n)"
    and "fid = (if file_id = [] then basename file_path else file_id)"
    and "s' = snd (agent_process_file pd file_path file_id s)"
  shows "fst (agent_process_file pd file_path file_id s)
       = Inr (Workbook (map (\<lambda>n. (n, dfs n, mds n)) sheet_names) sheet_names)
     \<and> (\<forall>n\<in>set sheet_names.
           data_frames (data_analysis_engine s') (fid @ ''_'' @ n) = Some (dfs n))
     \<and> (\<forall>k. k \<notin> (\<lambda>n. fid @ ''_'' @ n) ` set sheet_names \<longrightarrow>
           data_frames (data_analysis_engine s') k = data_frames (data_analysis_engine s) k)
     \<and> card ((\<lambda>n. fid @ ''_'' @ n) ` set sheet_names) = length sheet_names
     \<and> engine_context (data_analysis_engine s')
         = (engine_context (data_analysis_engine s))
             (fid \<mapsto> Workbook (map (\<lambda>n. (n, dfs n, mds n)) sheet_names) sheet_names)"
proof -
  let ?wb = "Workbook (map (\<lambda>n. (n, dfs n, mds n)) sheet_names) sheet_names"
  have e: "process_excel pd file_path =
     (Inr ?wb, OpenExcel file_path # map (ReadExcel file_path) sheet_names)"
    using assms(2,3,4) by (rule process_excel_ok)
  have "process_file pd file_path = process_excel pd file_path"
    using assms(1) by (auto simp: process_file_def Let_def supported_extensions_def)
  with e have p: "process_file pd file_path =
     (Inr ?wb, OpenExcel file_path # map (ReadExcel file_path) sheet_names)"
    by simp
  have r: "fst (agent_process_file pd file_path file_id s) = Inr ?wb"
    using p by (simp add: agent_process_file_def Let_def)
  have d: "data_frames (data_analysis_engine s')
      = foldl (\<lambda>m (sheet_name, df, md). m(fid @ ''_'' @ sheet_name \<mapsto> df))
          (data_frames (data_analysis_engine s))
          (map (\<lambda>n. (n, dfs n, mds n)) sheet_names)"
    unfolding assms(5,6) using p by (simp add: agent_process_file_def Let_def add_data_def)
  have c: "engine_context (data_analysis_engine s')
      = (engine_context (data_analysis_engine s))(fid \<mapsto> ?wb)"
    unfolding assms(5,6) using p by (simp add: agent_process_file_def Let_def add_data_def)
  show ?thesis
  proof (intro conjI ballI allI impI)
    show "engine_context (data_analysis_engine s')
      = (engine_context (data_analysis_engine s))(fid \<mapsto> ?wb)" by (rule c)
  next
    show "fst (agent_process_file pd file_path file_id s) = Inr ?wb" by (rule r)
  next
    fix n assume "n \<in> set sheet_names"
    then show "data_frames (data_analysis_engine s') (fid @ ''_'' @ n) = Some (dfs n)"
      unfolding d by (rule register_sheet)
  next
    fix k assume "k \<notin> (\<lambda>n. fid @ ''_'' @ n) ` set sheet_names"
    then show "data_frames (data_analysis_engine s') k = data_frames (data_analysis_engine s) k"
      unfolding d by (rule register_other)
  next
    show "card ((\<lambda>n. fid @ ''_'' @ n) ` set sheet_names) = length sheet_names"
      using assms(3) by (rule sheet_keys_card)
  qed
qed

text \<open>
A workbook with the two sheets \<open>Q1\<close> and \<open>Q2\<close>, ingested by a fresh agent.
\<close>

theorem excel_ingestion_witness:
  "fst (agent_process_file sample_pandas ''uploads/book.xlsx'' ''book.xlsx'' new_agent)
     = Inr (Workbook [(''Q1'', ''uploads/book.xlsx#Q1'', ()), (''Q2'', ''uploads/book.xlsx#Q2'', ())]
              [''Q1'', ''Q2''])
   \<and> data_frames (data_analysis_engine
         (snd (agent_process_file sample_pandas ''uploads/book.xlsx'' ''book.xlsx'' new_agent)))
       ''book.xlsx_Q1'' = Some ''uploads/book.xlsx#Q1''
   \<and> data_frames (data_analysis_engine
         (snd (agent_process_file sample_pandas ''uploads/book.xlsx'' ''book.xlsx'' new_agent)))
       ''book.xlsx_Q2'' = Some ''uploads/book.xlsx#Q2''
   \<and> data_frames (data_analysis_engine
         (snd (agent_process_file sample_pandas ''uploads/book.xlsx'' ''book.xlsx'' new_agent)))
       ''book.xlsx'' = None"
proof -
  have h1: "snd (splitext ''uploads/book.xlsx'') = ''.xlsx''
      \<or> snd (splitext ''uploads/book.xlsx'') = ''.xls''"
    by code_simp
  have h2: "excel_sheet_names sample_pandas ''uploads/book.xlsx'' = Inr [''Q1'', ''Q2'']"
    by (simp add: sample_pandas_def sample_sheet_names_def)
  have h3: "distinct [''Q1'', ''Q2'']" by simp
  have h4: "\<forall>n\<in>set [''Q1'', ''Q2''].
      read_excel sample_pandas ''uploads/book.xlsx'' n = Inr (''uploads/book.xlsx#'' @ n)
      \<and> metadata_of sample_pandas (''uploads/book.xlsx#'' @ n) = Inr ()"
    by (simp add: sample_pandas_def sample_read_excel_def sample_metadata_def)
  have h5: "''book.xlsx'' = (if ''book.xlsx'' = [] then basename ''uploads/book.xlsx''
      else ''book.xlsx'')"
    by simp
  note r = excel_ingestion[where dfs = "\<lambda>n. ''uploads/book.xlsx#'' @ n" and mds = "\<lambda>n. ()",
      OF h1 h2 h3 h4 h5 refl, of new_agent]
  have k: "''book.xlsx'' \<notin> (\<lambda>n. ''book.xlsx'' @ ''_'' @ n) ` set [''Q1'', ''Q2'']" by simp
  have o: "data_frames (data_analysis_engine
         (snd (agent_process_file sample_pandas ''uploads/book.xlsx'' ''book.xlsx'' new_agent)))
       ''book.xlsx'' = data_frames (data_analysis_engine (new_agent :: (string, unit) agent)) ''book.xlsx''"
    using r k by blast
  from r o show ?thesis by (simp add: new_agent_def)
qed

text \<open>
Claim C1, as amended.  For a visualization query whose extracted \<open>file_id\<close> is neither
  a list nor a dictionary and is not a key of \<open>data_frames\<close>, \<open>ask\<close> does not raise: it
  returns the text response "File ... not found or no data available for visualization",
  the history gains the user's turn and an assistant turn holding that message, nothing
  is drawn, and the stores are unchanged.
\<close>

theorem dataset_not_found:
  assumes "files s = kv # rest" and "fst kv \<noteq> []" and "viz_request query"
    and "fst (parse_visualization_request json_loads llm (files s) query) = Inr (PyDict d)"
    and "v = dict_get d ''file_id'' (PyStr (fst kv))"
    and "\<forall>k. v = PyStr k \<longrightarrow> data_frames (data_analysis_engine s) k = None"
    and "\<forall>xs. v \<noteq> PyList xs" and "\<forall>d'. v \<noteq> PyDict d'"
  shows "fst (ask json_loads llm draw query s) = Inr (TextResponse (FileNotFound v))
     \<and> conversation_history (snd (ask json_loads llm draw query s))
         = conversation_history s
           @ [\<lparr>role = User, content = Literal query\<rparr>,
              \<lparr>role = Assistant, content = FileNotFound v\<rparr>]
     \<and> calls (snd (ask json_loads llm draw query s)) = calls s @ [LlmInvoke]
     \<and> files (snd (ask json_loads llm draw query s)) = files s
     \<and> data_analysis_engine (snd (ask json_loads llm draw query s)) = data_analysis_engine s"
proof -
  define s1 where "s1 = s\<lparr>conversation_history :=
      conversation_history s @ [\<lparr>role = User, content = Literal query\<rparr>]\<rparr>"
  have a: "ask json_loads llm draw query s
      = ask_visualization json_loads llm draw (fst kv) query s1"
    unfolding s1_def using assms(1-3) by (rule ask_visualization_branch)
  have f: "files s1 = files s" by (simp add: s1_def)
  have p: "parse_visualization_request json_loads llm (files s1) query
      = (Inr (PyDict d), [LlmInvoke])"
    using assms(4) parse_calls[of json_loads llm "files s" query] unfolding f
    by (simp add: prod_eq_iff)
  have l: "frame_lookup (data_frames (data_analysis_engine s1)) v = Inr None"
    using assms(6-8) by (intro frame_lookup_absent) (simp_all add: s1_def)
  have "ask_visualization json_loads llm draw (fst kv) query s1
      = respond (TextResponse (FileNotFound v)) (s1\<lparr>calls := calls s1 @ [LlmInvoke]\<rparr>)"
    using p assms(5) l by (intro ask_visualization_not_found) simp_all
  with a show ?thesis by (simp add: respond_def s1_def)
qed

text \<open>
The model names \<open>other.csv\<close> while only \<open>loans.csv\<close> is loaded.
\<close>

theorem dataset_not_found_witness:
  "fst (ask sample_json_loads (Inr reply_other_file) sample_draw ''plot Age by region''
          sample_agent)
     = Inr (TextResponse (FileNotFound (PyStr ''other.csv'')))
   \<and> conversation_history
        (snd (ask sample_json_loads (Inr reply_other_file) sample_draw ''plot Age by region''
                sample_agent))
       = [\<lparr>role = User, content = Literal ''plot Age by region''\<rparr>,
          \<lparr>role = Assistant, content = FileNotFound (PyStr ''other.csv'')\<rparr>]
   \<and> calls (snd (ask sample_json_loads (Inr reply_other_file) sample_draw
                   ''plot Age by region'' sample_agent)) = [LlmInvoke]"
proof -
  let ?d = "[(''type'', PyStr ''bar''), (''x_column'', PyStr ''Age''),
             (''file_id'', PyStr ''other.csv'')]"
  have h1: "files sample_agent = (''loans.csv'', Table ''loans'' ()) # []"
    by (simp add: sample_agent_def)
  have h2: "fst (''loans.csv'', Table ''loans'' ()) \<noteq> []" by simp
  have h3: "viz_request ''plot Age by region''" by code_simp
  have h4: "fst (parse_visualization_request sample_json_loads (Inr reply_other_file)
               (files sample_agent) ''plot Age by region'') = Inr (PyDict ?d)"
    by code_simp
  have h5: "PyStr ''other.csv''
      = dict_get ?d ''file_id'' (PyStr (fst (''loans.csv'', Table ''loans'' ())))"
    by (simp add: dict_get_def)
  have h6: "\<forall>k. PyStr ''other.csv'' = PyStr k \<longrightarrow>
      data_frames (data_analysis_engine sample_agent) k = None"
    by (simp add: sample_agent_def)
  have h7: "\<forall>xs. PyStr ''other.csv'' \<noteq> PyList xs" by simp
  have h8: "\<forall>d'. PyStr ''other.csv'' \<noteq> PyDict d'" by simp
  from dataset_not_found[OF h1 h2 h3 h4 h5 h6 h7 h8, of sample_draw]
  show ?thesis by (simp add: sample_agent_def)
qed

text \<open>
Claim C1 as stated has \<open>ask\<close> fail with a not-found error, and never crash, on every
  \<open>file_id\<close> that is not a key.  On the unknown name \<open>other.csv\<close> the code returns
  normally, with a text response; on the list \<open>["loans.csv"]\<close>, which is not a key
  either, the membership test itself raises \<open>TypeError\<close>.
\<close>

theorem dataset_not_found_counterexample:
  "fst (ask sample_json_loads (Inr reply_other_file) sample_draw ''plot Age by region''
          sample_agent)
     = Inr (TextResponse (FileNotFound (PyStr ''other.csv'')))
   \<and> fst (ask sample_json_loads (Inr reply_list_file_id) sample_draw ''plot Age by region''
            sample_agent)
       = Inl (TypeError ''unhashable type'')"
  by code_simp

text \<open>
Claim C6.  When the model's answer parses to a dictionary whose \<open>type\<close> is none of
  \<open>bar\<close>, \<open>line\<close>, \<open>scatter\<close>, \<open>histogram\<close>, \<open>boxplot\<close>, \<open>heatmap\<close>, \<open>pie\<close>,
  the extractor returns the dictionary as it is, \<open>generate_visualization\<close> raises
  \<open>ValueError("Unsupported visualization type: ...")\<close> for that type whatever the other
  arguments, and \<open>ask\<close>, once the dataset is resolved, raises that same error to its
  caller; nothing is drawn and no assistant turn is recorded.
\<close>

theorem unsupported_chart_type:
  assumes "files s = kv # rest" and "fst kv \<noteq> []" and "viz_request query"
    and "llm = Inr t" and "json_loads (clean_response_text t) = Some (PyDict d)"
    and "map_of d ''type'' = Some v"
    and "v \<notin> PyStr ` {''bar'', ''line'', ''scatter'', ''histogram'', ''boxplot'',
                        ''heatmap'', ''pie''}"
    and "dict_get d ''file_id'' (PyStr (fst kv)) = PyStr k" and "k \<noteq> []"
    and "data_frames (data_analysis_engine s) k = Some df"
  shows "fst (parse_visualization_request json_loads llm (files s) query) = Inr (PyDict d)
     \<and> generate_visualization draw df v x y c ttl ''seaborn''
         = (Inl (UnsupportedVisualizationType v), [])
     \<and> fst (ask json_loads llm draw query s) = Inl (UnsupportedVisualizationType v)
     \<and> conversation_history (snd (ask json_loads llm draw query s))
         = conversation_history s @ [\<lparr>role = User, content = Literal query\<rparr>]
     \<and> calls (snd (ask json_loads llm draw query s)) = calls s @ [LlmInvoke]"
proof -
  define s1 where "s1 = s\<lparr>conversation_history :=
      conversation_history s @ [\<lparr>role = User, content = Literal query\<rparr>]\<rparr>"
  have a: "ask json_loads llm draw query s
      = ask_visualization json_loads llm draw (fst kv) query s1"
    unfolding s1_def using assms(1-3) by (rule ask_visualization_branch)
  have ps: "fst (parse_visualization_request json_loads llm (files s) query) = Inr (PyDict d)"
    using assms(4,5) by (rule parse_success)
  have f: "files s1 = files s" by (simp add: s1_def)
  have p: "parse_visualization_request json_loads llm (files s1) query
      = (Inr (PyDict d), [LlmInvoke])"
    using ps parse_calls[of json_loads llm "files s" query] unfolding f
    by (simp add: prod_eq_iff)
  have ty: "dict_get d ''type'' (PyStr ''bar'') = v"
    using assms(6) by (simp add: dict_get_def)
  have df: "data_frames (data_analysis_engine s1) k = Some df"
    using assms(10) by (simp add: s1_def)
  have g: "generate_visualization draw df (dict_get d ''type'' (PyStr ''bar''))
              (dict_get d ''x_column'' PyNone) (dict_get d ''y_column'' PyNone)
              (dict_get d ''category_column'' PyNone) (dict_get d ''title'' PyNone)
              ''seaborn'' = (Inl (UnsupportedVisualizationType v), [])"
    unfolding ty using assms(7) by (rule generate_unsupported)
  have "ask_visualization json_loads llm draw (fst kv) query s1
      = (Inl (UnsupportedVisualizationType v), s1\<lparr>calls := calls s1 @ [LlmInvoke] @ []\<rparr>)"
    using ask_visualization_found[OF p assms(8,9) df g] by simp
  with a have r: "ask json_loads llm draw query s
      = (Inl (UnsupportedVisualizationType v), s1\<lparr>calls := calls s1 @ [LlmInvoke]\<rparr>)"
    by simp
  have u: "generate_visualization draw df v x y c ttl ''seaborn''
         = (Inl (UnsupportedVisualizationType v), [])"
    using assms(7) by (rule generate_unsupported)
  from ps u r show ?thesis by (simp add: s1_def)
qed

text \<open>
The model asks for an \<open>area\<close> chart of the loaded file, in a fenced JSON answer.
\<close>

theorem unsupported_chart_type_witness:
  "fst (parse_visualization_request sample_json_loads (Inr reply_area_chart)
          (files sample_agent) ''draw a chart of Age'')
     = Inr (PyDict [(''type'', PyStr ''area''), (''x_column'', PyStr ''Age''),
                    (''file_id'', PyStr ''loans.csv'')])
   \<and> fst (ask sample_json_loads (Inr reply_area_chart) sample_draw ''draw a chart of Age''
            sample_agent)
       = Inl (UnsupportedVisualizationType (PyStr ''area''))
   \<and> calls (snd (ask sample_json_loads (Inr reply_area_chart) sample_draw
                   ''draw a chart of Age'' sample_agent)) = [LlmInvoke]"
proof -
  let ?d = "[(''type'', PyStr ''area''), (''x_column'', PyStr ''Age''),
             (''file_id'', PyStr ''loans.csv'')]"
  have h1: "files sample_agent = (''loans.csv'', Table ''loans'' ()) # []"
    by (simp add: sample_agent_def)
  have h2: "fst (''loans.csv'', Table ''loans'' ()) \<noteq> []" by simp
  have h3: "viz_request ''draw a chart of Age''" by code_simp
  have h4: "(Inr reply_area_chart :: error + string) = Inr reply_area_chart" by simp
  have h5: "sample_json_loads (clean_response_text reply_area_chart) = Some (PyDict ?d)"
    by code_simp
  have h6: "map_of ?d ''type'' = Some (PyStr ''area'')" by simp
  have h7: "PyStr ''area'' \<notin> PyStr ` {''bar'', ''line'', ''scatter'', ''histogram'',
      ''boxplot'', ''heatmap'', ''pie''}"
    by simp
  have h8: "dict_get ?d ''file_id'' (PyStr (fst (''loans.csv'', Table ''loans'' ())))
      = PyStr ''loans.csv''"
    by (simp add: dict_get_def)
  have h9: "''loans.csv'' \<noteq> []" by simp
  have h10: "data_frames (data_analysis_engine sample_agent) ''loans.csv'' = Some ''loans''"
    by (simp add: sample_agent_def)
  from unsupported_chart_type[where json_loads = sample_json_loads and draw = sample_draw,
      OF h1 h2 h3 h4 h5 h6 h7 h8 h9 h10]
  show ?thesis by (simp add: sample_agent_def)
qed

text \<open>
Claim C10.  When the model's answer parses to a dictionary without the key \<open>type\<close>
  and with a \<open>file_id\<close> that is loaded, and the bar plot that \<open>_seaborn_viz\<close> then
  selects is drawn successfully, \<open>ask\<close> raises \<open>KeyError('type')\<close> while it composes
  the message: the figure has been drawn, no response is returned and no assistant turn
  is recorded.
\<close>

theorem missing_type_key:
  assumes "files s = kv # rest" and "fst kv \<noteq> []" and "viz_request query"
    and "llm = Inr t" and "json_loads (clean_response_text t) = Some (PyDict d)"
    and "map_of d ''type'' = None"
    and "dict_get d ''file_id'' (PyStr (fst kv)) = PyStr k" and "k \<noteq> []"
    and "data_frames (data_analysis_engine s) k = Some df"
    and "pc = Barplot (dict_get d ''x_column'' PyNone) (dict_get d ''y_column'' PyNone)
                (if truthy (dict_get d ''category_column'' PyNone)
                 then Some (dict_get d ''category_column'' PyNone) else None)"
    and "draw df pc (dict_get d ''title'' PyNone) = Inr img"
  shows "fst (ask json_loads llm draw query s) = Inl (KeyError ''type'')
     \<and> calls (snd (ask json_loads llm draw query s)) = calls s @ [LlmInvoke, Draw pc]
     \<and> conversation_history (snd (ask json_loads llm draw query s))
         = conversation_history s @ [\<lparr>role = User, content = Literal query\<rparr>]"
proof -
  define s1 where "s1 = s\<lparr>conversation_history :=
      conversation_history s @ [\<lparr>role = User, content = Literal query\<rparr>]\<rparr>"
  have a: "ask json_loads llm draw query s
      = ask_visualization json_loads llm draw (fst kv) query s1"
    unfolding s1_def using assms(1-3) by (rule ask_visualization_branch)
  have ps: "fst (parse_visualization_request json_loads llm (files s) query) = Inr (PyDict d)"
    using assms(4,5) by (rule parse_success)
  have f: "files s1 = files s" by (simp add: s1_def)
  have p: "parse_visualization_request json_loads llm (files s1) query
      = (Inr (PyDict d), [LlmInvoke])"
    using ps parse_calls[of json_loads llm "files s" query] unfolding f
    by (simp add: prod_eq_iff)
  have ty: "dict_get d ''type'' (PyStr ''bar'') = PyStr ''bar''"
    using assms(6) by (simp add: dict_get_def)
  have df: "data_frames (data_analysis_engine s1) k = Some df"
    using assms(9) by (simp add: s1_def)
  have g: "generate_visualization draw df (dict_get d ''type'' (PyStr ''bar''))
              (dict_get d ''x_column'' PyNone) (dict_get d ''y_column'' PyNone)
              (dict_get d ''category_column'' PyNone) (dict_get d ''title'' PyNone)
              ''seaborn''
        = (Inr \<lparr>figure = img, format = ''base64_png'', title = dict_get d ''title'' PyNone,
                 viz_type = PyStr ''bar'', engine = ''seaborn''\<rparr>,
           [Draw pc])"
    unfolding ty assms(10) using assms(11)[unfolded assms(10)] by (rule generate_bar)
  have "ask_visualization json_loads llm draw (fst kv) query s1
      = (Inl (KeyError ''type''), s1\<lparr>calls := calls s1 @ [LlmInvoke] @ [Draw pc]\<rparr>)"
    using ask_visualization_found[OF p assms(7,8) df g] assms(6) by simp
  with a show ?thesis by (simp add: s1_def)
qed

text \<open>
A model answer that gives only the x-column and the file.
\<close>

theorem missing_type_key_witness:
  "sample_json_loads (clean_response_text reply_without_type)
     = Some (PyDict [(''x_column'', PyStr ''Age''), (''file_id'', PyStr ''loans.csv'')])
   \<and> fst (ask sample_json_loads (Inr reply_without_type) sample_draw ''bar chart of Age''
            sample_agent)
       = Inl (KeyError ''type'')
   \<and> calls (snd (ask sample_json_loads (Inr reply_without_type) sample_draw
                   ''bar chart of Age'' sample_agent))
       = [LlmInvoke, Draw (Barplot (PyStr ''Age'') PyNone None)]
   \<and> conversation_history (snd (ask sample_json_loads (Inr reply_without_type) sample_draw
                   ''bar chart of Age'' sample_agent))
       = [\<lparr>role = User, content = Literal ''bar chart of Age''\<rparr>]"
proof -
  let ?d = "[(''x_column'', PyStr ''Age''), (''file_id'', PyStr ''loans.csv'')]"
  have h1: "files sample_agent = (''loans.csv'', Table ''loans'' ()) # []"
    by (simp add: sample_agent_def)
  have h2: "fst (''loans.csv'', Table ''loans'' ()) \<noteq> []" by simp
  have h3: "viz_request ''bar chart of Age''" by code_simp
  have h4: "(Inr reply_without_type :: error + string) = Inr reply_without_type" by simp
  have h5: "sample_json_loads (clean_response_text reply_without_type) = Some (PyDict ?d)"
    by code_simp
  have h6: "map_of ?d ''type'' = None" by simp
  have h7: "dict_get ?d ''file_id'' (PyStr (fst (''loans.csv'', Table ''loans'' ())))
      = PyStr ''loans.csv''"
    by (simp add: dict_get_def)
  have h8: "''loans.csv'' \<noteq> []" by simp
  have h9: "data_frames (data_analysis_engine sample_agent) ''loans.csv'' = Some ''loans''"
    by (simp add: sample_agent_def)
  have h10: "Barplot (PyStr ''Age'') PyNone None
      = Barplot (dict_get ?d ''x_column'' PyNone) (dict_get ?d ''y_column'' PyNone)
                (if truthy (dict_get ?d ''category_column'' PyNone)
                 then Some (dict_get ?d ''category_column'' PyNone) else None)"
    by (simp add: dict_get_def)
  have h11: "sample_draw ''loans'' (Barplot (PyStr ''Age'') PyNone None)
      (dict_get ?d ''title'' PyNone) = Inr ''iVBORw0KGgo=''"
    by (simp add: sample_draw_def)
  from h5 missing_type_key[where json_loads = sample_json_loads and draw = sample_draw,
      OF h1 h2 h3 h4 h5 h6 h7 h8 h9 h10 h11]
  show ?thesis by (simp add: sample_agent_def)
qed

end
